theory Spec2Isabelle
  imports Main
begin

section \<open>JavaScript values\<close>

text \<open>
  The values that cross the server boundary are JavaScript values: what
  \<^verbatim>\<open>express.json()\<close> leaves in \<^verbatim>\<open>req.body\<close>, what
  \<^verbatim>\<open>response.json()\<close> resolves to, and what the handlers pass to
  \<^verbatim>\<open>res.json\<close>. Numbers are carried as integers: no operation of the
  server computes with them. Strings are character lists.
\<close>

datatype jsval =
    Undefined
  | Null
  | Bool bool
  | Num int
  | Str string
  | Arr "jsval list"
  | Obj "(string \<times> jsval) list"

text \<open>A thrown JavaScript error: its constructor name and its \<^verbatim>\<open>message\<close>.\<close>

datatype js_error = JsError (err_name: string) (err_message: string)

text \<open>The operand of \<^verbatim>\<open>!\<close> and \<^verbatim>\<open>if\<close>: every value is truthy except
  \<^verbatim>\<open>undefined\<close>, \<^verbatim>\<open>null\<close>, \<^verbatim>\<open>false\<close>, \<^verbatim>\<open>0\<close> and the empty string.\<close>

fun truthy :: "jsval \<Rightarrow> bool" where
  "truthy Undefined = False"
| "truthy Null = False"
| "truthy (Bool b) = b"
| "truthy (Num n) = (n \<noteq> 0)"
| "truthy (Str s) = (s \<noteq> [])"
| "truthy (Arr xs) = True"
| "truthy (Obj kvs) = True"

text \<open>
  Reading a property \<^verbatim>\<open>v.k\<close> (also by destructuring, \<^verbatim>\<open>const { k } = v\<close>):
  a TypeError on \<^verbatim>\<open>undefined\<close> and \<^verbatim>\<open>null\<close>, the stored value on an object
  that has the key, \<^verbatim>\<open>undefined\<close> otherwise. The source reads only the keys
  \<^verbatim>\<open>code\<close>, \<^verbatim>\<open>access_token\<close> and \<^verbatim>\<open>user\<close>, none of which a
  primitive, an array or \<^verbatim>\<open>Object.prototype\<close> provides.
\<close>

fun js_get :: "jsval \<Rightarrow> string \<Rightarrow> js_error + jsval" where
  "js_get Undefined k = Inl (JsError ''TypeError'' ''Cannot read properties of undefined'')"
| "js_get Null k = Inl (JsError ''TypeError'' ''Cannot read properties of null'')"
| "js_get (Obj kvs) k = Inr (case map_of kvs k of None \<Rightarrow> Undefined | Some v \<Rightarrow> v)"
| "js_get v k = Inr Undefined"

text \<open>
  \<^verbatim>\<open>JSON.stringify\<close> as the receiver sees it after parsing: a property whose
  value is \<^verbatim>\<open>undefined\<close> is left out of its object, and \<^verbatim>\<open>undefined\<close> in an
  array is written \<^verbatim>\<open>null\<close>.
\<close>

fun json_wire :: "jsval \<Rightarrow> jsval" where
  "json_wire (Arr xs) = Arr (map (\<lambda>v. if v = Undefined then Null else json_wire v) xs)"
| "json_wire (Obj kvs) =
     Obj (map (\<lambda>(k, v). (k, json_wire v)) (filter (\<lambda>(k, v). v \<noteq> Undefined) kvs))"
| "json_wire v = v"

text \<open>The values \<^verbatim>\<open>JSON.parse\<close> produces: \<^verbatim>\<open>undefined\<close> occurs nowhere in them.\<close>

fun is_json :: "jsval \<Rightarrow> bool" where
  "is_json Undefined = False"
| "is_json (Arr xs) = list_all is_json xs"
| "is_json (Obj kvs) = list_all (\<lambda>(k, v). is_json v) kvs"
| "is_json v = True"

text \<open>The keys of an object, in order; no keys for any other value.\<close>

fun js_keys :: "jsval \<Rightarrow> string list" where
  "js_keys (Obj kvs) = map fst kvs"
| "js_keys v = []"

text \<open>Decimal numerals, as \<^verbatim>\<open>String(n)\<close> and a template literal write an integer.\<close>

fun digit_char :: "nat \<Rightarrow> char" where
  "digit_char n = char_of (of_char CHR ''0'' + n :: nat)"

function dec_of_nat :: "nat \<Rightarrow> string" where
  "dec_of_nat n = (if n < 10 then [digit_char n] else dec_of_nat (n div 10) @ [digit_char (n mod 10)])"
  by pat_completeness auto
termination
  by (relation "measure id") auto

declare dec_of_nat.simps [simp del]

definition dec_of_int :: "int \<Rightarrow> string" where
  "dec_of_int i = (if i < 0 then CHR ''-'' # dec_of_nat (nat (- i)) else dec_of_nat (nat i))"

text \<open>
  \<^verbatim>\<open>String(v)\<close>, which \<^verbatim>\<open>URLSearchParams\<close> applies to each value it is given.
  An array joins its elements with commas, writing nothing for \<^verbatim>\<open>null\<close> and
  \<^verbatim>\<open>undefined\<close>.
\<close>

fun join_commas :: "string list \<Rightarrow> string" where
  "join_commas [] = []"
| "join_commas [s] = s"
| "join_commas (s # t # ss) = s @ '','' @ join_commas (t # ss)"

fun js_to_string :: "jsval \<Rightarrow> string" where
  "js_to_string Undefined = ''undefined''"
| "js_to_string Null = ''null''"
| "js_to_string (Bool b) = (if b then ''true'' else ''false'')"
| "js_to_string (Num n) = dec_of_int n"
| "js_to_string (Str s) = s"
| "js_to_string (Arr xs) =
     join_commas (map (\<lambda>v. if v = Undefined \<or> v = Null then [] else js_to_string v) xs)"
| "js_to_string (Obj kvs) = ''[object Object]''"

section \<open>Server: configuration\<close>

text \<open>
  The \<^verbatim>\<open>config\<close> object of \<^verbatim>\<open>app.ts\<close>. \<^verbatim>\<open>clientId\<close> and
  \<^verbatim>\<open>clientSecret\<close> are \<^verbatim>\<open>undefined\<close> (\<open>None\<close>) when the environment
  variable is not set. The two port numbers are taken as already parsed.
\<close>

record config =
  port :: nat
  clientPort :: nat
  clientId :: "string option"
  clientSecret :: "string option"
  isProduction :: bool
  appName :: string

fun present :: "string option \<Rightarrow> bool" where
  "present None = False"
| "present (Some s) = (s \<noteq> [])"

text \<open>The check at start-up: the process exits unless both credentials are present.\<close>

definition startup_ok :: "config \<Rightarrow> bool" where
  "startup_ok cfg = (\<not> (\<not> present (clientId cfg) \<or> \<not> present (clientSecret cfg)))"

fun str_or_undefined :: "string option \<Rightarrow> jsval" where
  "str_or_undefined None = Undefined"
| "str_or_undefined (Some s) = Str s"

section \<open>Server: responses, outbound calls, log\<close>

datatype body = JsonBody jsval | FileBody string | NoBody

record http_response =
  resp_status :: nat
  resp_body :: body

text \<open>
  \<^verbatim>\<open>res.status(st).json(v)\<close> in answer to a \<^verbatim>\<open>POST\<close>; \<^verbatim>\<open>res.json(v)\<close> is
  the same with status 200. Express sends no body with the statuses 204 and 304.
\<close>

definition res_json :: "nat \<Rightarrow> jsval \<Rightarrow> http_response" where
  "res_json st v =
     \<lparr>resp_status = st,
      resp_body = (if st = 204 \<or> st = 304 then NoBody else JsonBody (json_wire v))\<rparr>"

text \<open>The request the server sends with \<^verbatim>\<open>fetch\<close>: the body is the list of
  \<^verbatim>\<open>URLSearchParams\<close> pairs.\<close>

record fetch_request =
  fr_url :: string
  fr_method :: string
  fr_headers :: "(string \<times> string) list"
  fr_form :: "(string \<times> string) list"

text \<open>
  What \<^verbatim>\<open>fetch\<close> resolves to: the status, and the outcome of
  \<^verbatim>\<open>response.json()\<close>, which rejects when the payload does not parse. The
  status is that of a final HTTP response: three digits, from 200 up to 999.
\<close>

record provider_response =
  pr_status :: nat
  pr_json :: "js_error + jsval"

text \<open>\<^verbatim>\<open>response.ok\<close>: the status is in the range 200 to 299.\<close>

definition ok :: "nat \<Rightarrow> bool" where
  "ok st = (200 \<le> st \<and> st \<le> 299)"

datatype log_arg = LogVal jsval | LogErr js_error

datatype log_line = ConsoleError string log_arg | ConsoleLog string

text \<open>What running a handler produces: the response, the outbound calls made, and
  the lines written to the console.\<close>

record handler_result =
  response :: http_response
  fetched :: "fetch_request list"
  logged :: "log_line list"

section \<open>Server: the token exchange endpoint\<close>

definition token_request :: "config \<Rightarrow> jsval \<Rightarrow> fetch_request" where
  "token_request cfg code =
     \<lparr>fr_url = ''https://discord.com/api/oauth2/token'',
      fr_method = ''POST'',
      fr_headers = [(''Content-Type'', ''application/x-www-form-urlencoded'')],
      fr_form = [(''client_id'', js_to_string (str_or_undefined (clientId cfg))),
                 (''client_secret'', js_to_string (str_or_undefined (clientSecret cfg))),
                 (''grant_type'', ''authorization_code''),
                 (''code'', js_to_string code)]\<rparr>"

text \<open>The \<^verbatim>\<open>catch\<close> block of the handler.\<close>

definition token_catch :: "fetch_request list \<Rightarrow> js_error \<Rightarrow> handler_result" where
  "token_catch calls e =
     \<lparr>response = res_json 500 (Obj [(''error'', Str ''Internal server error during token exchange'')]),
      fetched = calls,
      logged = [ConsoleError ''Token exchange error:'' (LogErr e)]\<rparr>"

text \<open>
  The handler of \<^verbatim>\<open>POST /api/token\<close>, given the behaviour of \<^verbatim>\<open>fetch\<close> and
  \<^verbatim>\<open>req.body\<close>. The destructuring of \<^verbatim>\<open>req.body\<close> is outside the
  \<^verbatim>\<open>try\<close>: when it throws, the handler's promise rejects and no response is
  written (\<open>Inl\<close>).
\<close>

definition token_handler ::
  "config \<Rightarrow> (fetch_request \<Rightarrow> js_error + provider_response) \<Rightarrow> jsval
     \<Rightarrow> js_error + handler_result" where
  "token_handler cfg fetch req_body =
     (case js_get req_body ''code'' of
        Inl e \<Rightarrow> Inl e
      | Inr code \<Rightarrow>
          if \<not> truthy code then
            Inr \<lparr>response = res_json 400 (Obj [(''error'', Str ''Authorization code is required'')]),
                 fetched = [], logged = []\<rparr>
          else
            let rq = token_request cfg code in
            (case fetch rq of
               Inl e \<Rightarrow> Inr (token_catch [rq] e)
             | Inr r \<Rightarrow>
                 if \<not> ok (pr_status r) then
                   let errorData = (case pr_json r of Inl e \<Rightarrow> Obj [] | Inr v \<Rightarrow> v) in
                   Inr \<lparr>response = res_json (pr_status r)
                          (Obj [(''error'', Str ''Failed to exchange token with Discord''),
                                (''details'', errorData)]),
                        fetched = [rq],
                        logged = [ConsoleError ''Discord token exchange failed:'' (LogVal errorData)]\<rparr>
                 else
                   (case pr_json r of
                      Inl e \<Rightarrow> Inr (token_catch [rq] e)
                    | Inr tokenData \<Rightarrow>
                        (case js_get tokenData ''access_token'' of
                           Inl e \<Rightarrow> Inr (token_catch [rq] e)
                         | Inr tok \<Rightarrow>
                             Inr \<lparr>response = res_json 200 (Obj [(''access_token'', tok)]),
                                  fetched = [rq], logged = []\<rparr>))))"

text \<open>The response of a handler run, if one was written.\<close>

definition sent :: "js_error + handler_result \<Rightarrow> http_response option" where
  "sent x = (case x of Inl e \<Rightarrow> None | Inr r \<Rightarrow> Some (response r))"

section \<open>Server: the application\<close>

text \<open>
  An incoming request, and the parts of the application that live in libraries and
  on the file system. They are parameters of the model: the JSON body parser
  (\<^verbatim>\<open>express.json()\<close>, which either leaves a value in \<^verbatim>\<open>req.body\<close> or passes
  an error on), the CORS middleware with the \<^verbatim>\<open>origin\<close> option it is given, the
  static file middleware, \<^verbatim>\<open>res.sendFile\<close>, the matching of a route path against
  the request path, \<^verbatim>\<open>fetch\<close>, the clock, the directory of the built client, and
  the freshness test of \<^verbatim>\<open>req.fresh\<close> (whether the validators in the request's
  headers match the body about to be sent).
\<close>

record request =
  req_method :: string
  req_path :: string
  req_raw :: string

datatype mw_result = Next | Responded http_response | Failed js_error

record server_env =
  json_parser :: "request \<Rightarrow> js_error + jsval"
  cors_mw :: "string option \<Rightarrow> request \<Rightarrow> mw_result"
  static_mw :: "string \<Rightarrow> request \<Rightarrow> mw_result"
  send_file :: "string \<Rightarrow> js_error + http_response"
  route_match :: "string \<Rightarrow> string \<Rightarrow> bool"
  do_fetch :: "fetch_request \<Rightarrow> js_error + provider_response"
  now :: string
  client_dist :: string
  is_fresh :: "request \<Rightarrow> jsval \<Rightarrow> bool"

text \<open>What the server did with a request: the response written (\<open>None\<close> when a
  handler's promise rejected and nothing was written), the outbound calls, the log.\<close>

record served =
  sv_response :: "http_response option"
  sv_fetched :: "fetch_request list"
  sv_logged :: "log_line list"

text \<open>The \<^verbatim>\<open>origin\<close> option given to \<^verbatim>\<open>cors\<close>.\<close>

definition cors_origin :: "config \<Rightarrow> string option" where
  "cors_origin cfg =
     (if isProduction cfg then None else Some (''http://localhost:'' @ dec_of_nat (clientPort cfg)))"

text \<open>A route registered with \<^verbatim>\<open>app.get\<close> also answers HEAD requests.\<close>

definition handles :: "string \<Rightarrow> string \<Rightarrow> bool" where
  "handles route_method m = (m = route_method \<or> (route_method = ''GET'' \<and> m = ''HEAD''))"

text \<open>The three API routes, in the order of registration.\<close>

definition is_health :: "server_env \<Rightarrow> request \<Rightarrow> bool" where
  "is_health env rq = (handles ''GET'' (req_method rq) \<and> route_match env ''/api/health'' (req_path rq))"

definition is_token :: "server_env \<Rightarrow> request \<Rightarrow> bool" where
  "is_token env rq = (handles ''POST'' (req_method rq) \<and> route_match env ''/api/token'' (req_path rq))"

definition is_config :: "server_env \<Rightarrow> request \<Rightarrow> bool" where
  "is_config env rq = (handles ''GET'' (req_method rq) \<and> route_match env ''/api/config'' (req_path rq))"

text \<open>
  \<^verbatim>\<open>res.status(st).json(v)\<close> in answer to any request. For a \<^verbatim>\<open>GET\<close> or
  \<^verbatim>\<open>HEAD\<close> with a status of 200 to 299 or 304, a fresh request turns the status
  into 304. A \<^verbatim>\<open>HEAD\<close> request is answered without a body; otherwise the body is
  sent as for a \<^verbatim>\<open>POST\<close>.
\<close>

definition res_send :: "server_env \<Rightarrow> request \<Rightarrow> nat \<Rightarrow> jsval \<Rightarrow> http_response" where
  "res_send env rq st v =
     (let fresh = ((req_method rq = ''GET'' \<or> req_method rq = ''HEAD'')
                   \<and> (ok st \<or> st = 304) \<and> is_fresh env rq (json_wire v));
          st' = (if fresh then 304 else st) in
      if req_method rq = ''HEAD'' then \<lparr>resp_status = st', resp_body = NoBody\<rparr>
      else res_json st' v)"

definition health_handler :: "server_env \<Rightarrow> config \<Rightarrow> request \<Rightarrow> http_response" where
  "health_handler env cfg rq =
     res_send env rq 200 (Obj [(''status'', Str ''ok''), (''app'', Str (appName cfg)),
                        (''timestamp'', Str (now env))])"

definition config_handler :: "server_env \<Rightarrow> config \<Rightarrow> request \<Rightarrow> http_response" where
  "config_handler env cfg rq =
     res_send env rq 200 (Obj [(''appName'', Str (appName cfg)),
                        (''clientId'', str_or_undefined (clientId cfg))])"

text \<open>The 404 handler and the global error handler.\<close>

definition not_found :: "server_env \<Rightarrow> request \<Rightarrow> http_response" where
  "not_found env rq = res_send env rq 404 (Obj [(''error'', Str ''Not found'')])"

definition error_handler ::
  "server_env \<Rightarrow> config \<Rightarrow> request \<Rightarrow> js_error \<Rightarrow> log_line list \<Rightarrow> served" where
  "error_handler env cfg rq err lg =
     \<lparr>sv_response = Some (res_send env rq 500
        (Obj [(''error'', Str (if isProduction cfg then ''Internal server error'' else err_message err))])),
      sv_fetched = [],
      sv_logged = lg @ [ConsoleError ''Unhandled error:'' (LogErr err)]\<rparr>"

definition respond :: "http_response \<Rightarrow> log_line list \<Rightarrow> served" where
  "respond r lg = \<lparr>sv_response = Some r, sv_fetched = [], sv_logged = lg\<rparr>"

text \<open>The request log line written outside production mode.\<close>

definition request_log :: "server_env \<Rightarrow> config \<Rightarrow> request \<Rightarrow> log_line list" where
  "request_log env cfg rq =
     (if \<not> isProduction cfg
      then [ConsoleLog (now env @ '' '' @ req_method rq @ '' '' @ req_path rq)]
      else [])"

text \<open>
  The production block: static files, then the \<^verbatim>\<open>app.get('*')\<close> fallback that
  sends \<^verbatim>\<open>index.html\<close>, then the 404 handler for what is left.
\<close>

definition production_block :: "server_env \<Rightarrow> config \<Rightarrow> request \<Rightarrow> log_line list \<Rightarrow> served" where
  "production_block env cfg rq lg =
     (case static_mw env (client_dist env) rq of
        Responded r \<Rightarrow> respond r lg
      | Failed e \<Rightarrow> error_handler env cfg rq e lg
      | Next \<Rightarrow>
          if handles ''GET'' (req_method rq) then
            (case send_file env (client_dist env @ ''/index.html'') of
               Inl e \<Rightarrow> error_handler env cfg rq e lg
             | Inr r \<Rightarrow> respond r lg)
          else respond (not_found env rq) lg)"

text \<open>The middleware and routes of \<^verbatim>\<open>app.ts\<close> in the order they are registered.\<close>

definition serve :: "server_env \<Rightarrow> config \<Rightarrow> request \<Rightarrow> served" where
  "serve env cfg rq =
     (case json_parser env rq of
        Inl e \<Rightarrow> error_handler env cfg rq e []
      | Inr req_body \<Rightarrow>
          (case cors_mw env (cors_origin cfg) rq of
             Responded r \<Rightarrow> respond r []
           | Failed e \<Rightarrow> error_handler env cfg rq e []
           | Next \<Rightarrow>
               let lg = request_log env cfg rq in
               if is_health env rq then respond (health_handler env cfg rq) lg
               else if is_token env rq then
                 (case token_handler cfg (do_fetch env) req_body of
                    Inl e \<Rightarrow> \<lparr>sv_response = None, sv_fetched = [], sv_logged = lg\<rparr>
                  | Inr h \<Rightarrow> \<lparr>sv_response = Some (response h), sv_fetched = fetched h,
                              sv_logged = lg @ logged h\<rparr>)
               else if is_config env rq then respond (config_handler env cfg rq) lg
               else if isProduction cfg then production_block env cfg rq lg
               else respond (not_found env rq) lg))"

text \<open>A request that none of the three API routes takes.\<close>

definition no_route :: "server_env \<Rightarrow> request \<Rightarrow> bool" where
  "no_route env rq = (\<not> is_health env rq \<and> \<not> is_token env rq \<and> \<not> is_config env rq)"

text \<open>An environment for examples: route paths match by equality, the library
  middleware passes every request on, the body is taken as already parsed,
  \<^verbatim>\<open>index.html\<close> exists, and no request carries validators.\<close>

definition example_env :: "jsval \<Rightarrow> (js_error + provider_response) \<Rightarrow> server_env" where
  "example_env req_body answer =
     \<lparr>json_parser = (\<lambda>rq. Inr req_body),
      cors_mw = (\<lambda>origin rq. Next),
      static_mw = (\<lambda>dir rq. Next),
      send_file = (\<lambda>path. Inr \<lparr>resp_status = 200, resp_body = FileBody path\<rparr>),
      route_match = (\<lambda>route path. route = path),
      do_fetch = (\<lambda>rq. answer),
      now = ''2024-01-01T00:00:00.000Z'',
      client_dist = ''/srv/client/dist'',
      is_fresh = (\<lambda>rq b. False)\<rparr>"

text \<open>A provider that refuses every exchange and repeats, in its error payload, the
  \<^verbatim>\<open>client_secret\<close> it was sent.\<close>

definition echo_provider :: "fetch_request \<Rightarrow> js_error + provider_response" where
  "echo_provider rq =
     Inr \<lparr>pr_status = 400,
          pr_json = Inr (Obj [(''error'', Str ''invalid_grant''),
            (''client_secret'',
             Str (case map_of (fr_form rq) ''client_secret'' of None \<Rightarrow> [] | Some s \<Rightarrow> s))])\<rparr>"

definition example_config :: "bool \<Rightarrow> config" where
  "example_config production =
     \<lparr>port = 3001, clientPort = 3000, clientId = Some ''123456789'',
      clientSecret = Some ''s3cret'', isProduction = production, appName = ''Discord Mini App''\<rparr>"

section \<open>Client: the authentication sequence\<close>

text \<open>
  The module-level variables of \<^verbatim>\<open>main.ts\<close>; both start as \<^verbatim>\<open>null\<close>.
\<close>

record client_state =
  currentUser :: jsval
  accessToken :: jsval

definition initial_state :: client_state where
  "initial_state = \<lparr>currentUser = Null, accessToken = Null\<rparr>"

text \<open>
  What the client awaits: the SDK's \<^verbatim>\<open>ready\<close>, \<^verbatim>\<open>authorize\<close> and
  \<^verbatim>\<open>authenticate\<close>, and the \<^verbatim>\<open>fetch\<close> of \<^verbatim>\<open>/api/token\<close> with the
  response's \<^verbatim>\<open>text()\<close> and \<^verbatim>\<open>json()\<close>. Each either resolves or rejects.
\<close>

record client_response =
  cr_status :: nat
  cr_text :: "js_error + string"
  cr_json :: "js_error + jsval"

record authorize_args =
  az_client_id :: string
  az_response_type :: string
  az_state :: string
  az_prompt :: string
  az_scope :: "string list"

record client_env =
  sdk_ready :: "js_error + unit"
  sdk_authorize :: "authorize_args \<Rightarrow> js_error + jsval"
  fetch_token :: "jsval \<Rightarrow> js_error + client_response"
  sdk_authenticate :: "jsval \<Rightarrow> js_error + jsval"

datatype client_call =
    CallReady
  | CallAuthorize authorize_args
  | CallFetchToken jsval
  | CallAuthenticate jsval

text \<open>The outcome of \<^verbatim>\<open>setupDiscordSdk\<close>: what its promise settles to, the
  module state afterwards, and the SDK and network calls it made, in order.\<close>

record client_result =
  returned :: "js_error + jsval"
  state :: client_state
  calls :: "client_call list"

definition the_authorize_args :: "string \<Rightarrow> authorize_args" where
  "the_authorize_args cid =
     \<lparr>az_client_id = cid, az_response_type = ''code'', az_state = [],
      az_prompt = ''none'', az_scope = [''identify'', ''guilds'', ''rpc.voice.read'']\<rparr>"

text \<open>
  \<^verbatim>\<open>setupDiscordSdk\<close>. The lines written by \<^verbatim>\<open>debugLog\<close> are not part of
  the model. Step 4 is its own function, as it starts after the assignment to
  \<^verbatim>\<open>accessToken\<close>.
\<close>

definition authenticate_step ::
  "client_env \<Rightarrow> client_state \<Rightarrow> client_call list \<Rightarrow> jsval \<Rightarrow> client_result" where
  "authenticate_step env s cs access_token =
     (let arg = Obj [(''access_token'', access_token)];
          cs' = cs @ [CallAuthenticate arg] in
      case sdk_authenticate env arg of
        Inl e \<Rightarrow> \<lparr>returned = Inl e, state = s, calls = cs'\<rparr>
      | Inr auth \<Rightarrow>
          if truthy auth then
            (case js_get auth ''user'' of
               Inl e \<Rightarrow> \<lparr>returned = Inl e, state = s, calls = cs'\<rparr>
             | Inr u \<Rightarrow> \<lparr>returned = Inr access_token, state = s\<lparr>currentUser := u\<rparr>, calls = cs'\<rparr>)
          else \<lparr>returned = Inr access_token, state = s, calls = cs'\<rparr>)"

definition exchange_step ::
  "client_env \<Rightarrow> client_state \<Rightarrow> client_call list \<Rightarrow> jsval \<Rightarrow> client_result" where
  "exchange_step env s cs code =
     (let req_body = json_wire (Obj [(''code'', code)]);
          cs' = cs @ [CallFetchToken req_body] in
      case fetch_token env req_body of
        Inl e \<Rightarrow> \<lparr>returned = Inl e, state = s, calls = cs'\<rparr>
      | Inr resp \<Rightarrow>
          if \<not> ok (cr_status resp) then
            (case cr_text resp of
               Inl e \<Rightarrow> \<lparr>returned = Inl e, state = s, calls = cs'\<rparr>
             | Inr errorText \<Rightarrow>
                 \<lparr>returned = Inl (JsError ''Error''
                     (''Failed to exchange code for token: '' @ dec_of_nat (cr_status resp))),
                  state = s, calls = cs'\<rparr>)
          else
            (case cr_json resp of
               Inl e \<Rightarrow> \<lparr>returned = Inl e, state = s, calls = cs'\<rparr>
             | Inr j \<Rightarrow>
                 (case js_get j ''access_token'' of
                    Inl e \<Rightarrow> \<lparr>returned = Inl e, state = s, calls = cs'\<rparr>
                  | Inr access_token \<Rightarrow>
                      authenticate_step env (s\<lparr>accessToken := access_token\<rparr>) cs' access_token)))"

definition setupDiscordSdk :: "client_env \<Rightarrow> string \<Rightarrow> client_state \<Rightarrow> client_result" where
  "setupDiscordSdk env cid s =
     (case sdk_ready env of
        Inl e \<Rightarrow> \<lparr>returned = Inl e, state = s, calls = [CallReady]\<rparr>
      | Inr u \<Rightarrow>
          (let args = the_authorize_args cid;
               cs = [CallReady, CallAuthorize args] in
           case sdk_authorize env args of
             Inl e \<Rightarrow> \<lparr>returned = Inl e, state = s, calls = cs\<rparr>
           | Inr a \<Rightarrow>
               (case js_get a ''code'' of
                  Inl e \<Rightarrow> \<lparr>returned = Inl e, state = s, calls = cs\<rparr>
                | Inr code \<Rightarrow> exchange_step env s cs code)))"

fun is_authenticate :: "client_call \<Rightarrow> bool" where
  "is_authenticate (CallAuthenticate a) = True"
| "is_authenticate c = False"

text \<open>A client environment for examples: the SDK is ready and authorizes with the
  code \<^verbatim>\<open>abc\<close>, and the server answers the token request as given.\<close>

definition example_client :: "client_response \<Rightarrow> client_env" where
  "example_client resp =
     \<lparr>sdk_ready = Inr (),
      sdk_authorize = (\<lambda>args. Inr (Obj [(''code'', Str ''abc'')])),
      fetch_token = (\<lambda>b. Inr resp),
      sdk_authenticate = (\<lambda>arg. Inr (Obj [(''user'', Obj [(''id'', Str ''42'')])]))\<rparr>"

section \<open>Client: CDN URLs\<close>

text \<open>
  \<^verbatim>\<open>BigInt(s)\<close> on a string: white space is trimmed; the empty string is zero; a
  prefix \<^verbatim>\<open>0x\<close>, \<^verbatim>\<open>0o\<close> or \<^verbatim>\<open>0b\<close> (either case) starts a numeral in that
  base; otherwise an optional sign and decimal digits. Anything else is a SyntaxError.
  The white space of the model is the ASCII white space.
\<close>

definition digit_val :: "char \<Rightarrow> nat option" where
  "digit_val c =
     (let n = (of_char c :: nat) in
      if 48 \<le> n \<and> n \<le> 57 then Some (n - 48)
      else if 97 \<le> n \<and> n \<le> 102 then Some (n - 87)
      else if 65 \<le> n \<and> n \<le> 70 then Some (n - 55)
      else None)"

fun parse_digits :: "nat \<Rightarrow> string \<Rightarrow> nat \<Rightarrow> nat option" where
  "parse_digits b [] acc = Some acc"
| "parse_digits b (c # cs) acc =
     (case digit_val c of
        None \<Rightarrow> None
      | Some d \<Rightarrow> if d < b then parse_digits b cs (acc * b + d) else None)"

definition parse_numeral :: "nat \<Rightarrow> string \<Rightarrow> nat option" where
  "parse_numeral b s = (if s = [] then None else parse_digits b s 0)"

definition is_space :: "char \<Rightarrow> bool" where
  "is_space c = ((of_char c :: nat) \<in> {9, 10, 11, 12, 13, 32})"

definition trim :: "string \<Rightarrow> string" where
  "trim s = rev (dropWhile is_space (rev (dropWhile is_space s)))"

definition string_to_bigint :: "string \<Rightarrow> int option" where
  "string_to_bigint s =
     (case trim s of
        [] \<Rightarrow> Some 0
      | [c] \<Rightarrow> map_option int (parse_numeral 10 [c])
      | c # d # ds \<Rightarrow>
          if c = CHR ''0'' \<and> (d = CHR ''x'' \<or> d = CHR ''X'') then map_option int (parse_numeral 16 ds)
          else if c = CHR ''0'' \<and> (d = CHR ''o'' \<or> d = CHR ''O'') then map_option int (parse_numeral 8 ds)
          else if c = CHR ''0'' \<and> (d = CHR ''b'' \<or> d = CHR ''B'') then map_option int (parse_numeral 2 ds)
          else if c = CHR ''-'' then map_option (\<lambda>n. - int n) (parse_numeral 10 (d # ds))
          else if c = CHR ''+'' then map_option int (parse_numeral 10 (d # ds))
          else map_option int (parse_numeral 10 (c # d # ds)))"

definition BigInt :: "string \<Rightarrow> js_error + int" where
  "BigInt s =
     (case string_to_bigint s of
        None \<Rightarrow> Inl (JsError ''SyntaxError'' (''Cannot convert '' @ s @ '' to a BigInt''))
      | Some i \<Rightarrow> Inr i)"

text \<open>The \<^verbatim>\<open>%\<close> of BigInt: the remainder of the division that truncates towards
  zero, so the result has the sign of the dividend.\<close>

definition bigint_rem :: "int \<Rightarrow> int \<Rightarrow> int" where
  "bigint_rem a b = sgn a * (\<bar>a\<bar> mod \<bar>b\<bar>)"

text \<open>
  A JavaScript number, as far as a template literal is concerned. A safe integer (of
  magnitude below \<open>2 ^ 53\<close>) is written as its decimal numeral. Every other number (a
  fraction, a larger number, \<^verbatim>\<open>NaN\<close>, an infinity) is given by the text
  \<^verbatim>\<open>String\<close> produces for it, such as \<^verbatim>\<open>128.5\<close> or \<^verbatim>\<open>1e+21\<close>.
\<close>

datatype js_number = SafeInteger int | OtherNumber string

fun is_number :: "js_number \<Rightarrow> bool" where
  "is_number (SafeInteger i) = (\<bar>i\<bar> < 2 ^ 53)"
| "is_number (OtherNumber s) = True"

fun number_to_string :: "js_number \<Rightarrow> string" where
  "number_to_string (SafeInteger i) = dec_of_int i"
| "number_to_string (OtherNumber s) = s"

text \<open>
  \<^verbatim>\<open>getUserAvatarUrl(userId, avatarHash, size = 128)\<close>. The size is \<open>None\<close> when
  the caller passes none.
\<close>

definition getUserAvatarUrl ::
  "string \<Rightarrow> string option \<Rightarrow> js_number option \<Rightarrow> js_error + string" where
  "getUserAvatarUrl userId avatarHash size_arg =
     (let size = (case size_arg of None \<Rightarrow> SafeInteger 128 | Some n \<Rightarrow> n) in
      case (if present avatarHash then avatarHash else None) of
        None \<Rightarrow>
          (case BigInt userId of
             Inl e \<Rightarrow> Inl e
           | Inr b \<Rightarrow>
               let defaultIndex = bigint_rem b 5 in
               Inr (''https://cdn.discordapp.com/embed/avatars/'' @ dec_of_int defaultIndex @ ''.png''))
      | Some h \<Rightarrow>
          Inr (''https://cdn.discordapp.com/avatars/'' @ userId @ ''/'' @ h @ ''.webp?size='' @ number_to_string size))"

definition getGuildIconUrl :: "string \<Rightarrow> string \<Rightarrow> js_number option \<Rightarrow> string" where
  "getGuildIconUrl guildId iconHash size_arg =
     (let size = (case size_arg of None \<Rightarrow> SafeInteger 128 | Some n \<Rightarrow> n) in
      ''https://cdn.discordapp.com/icons/'' @ guildId @ ''/'' @ iconHash @ ''.webp?size='' @ number_to_string size)"

section \<open>Validation of the authorization code\<close>

text \<open>
  C2. A request to \<^verbatim>\<open>POST /api/token\<close> whose body has no \<^verbatim>\<open>code\<close> field, or an
  empty one, is answered with status 400 and the body
  \<^verbatim>\<open>{ error: "Authorization code is required" }\<close>, and no call to the identity
  provider is made, whatever the provider would have answered.
\<close>

theorem token_missing_code_400:
  assumes "js_get req_body ''code'' = Inr Undefined \<or> js_get req_body ''code'' = Inr (Str [])"
  shows "\<exists>r. token_handler cfg fetch req_body = Inr r
           \<and> response r = \<lparr>resp_status = 400,
                resp_body = JsonBody (Obj [(''error'', Str ''Authorization code is required'')])\<rparr>
           \<and> fetched r = []"
  using assms by (auto simp: token_handler_def res_json_def)

theorem token_missing_code_400_witness:
  "(js_get (Obj []) ''code'' = Inr Undefined \<or> js_get (Obj []) ''code'' = Inr (Str []))
   \<and> (\<exists>r. token_handler (example_config False)
              (\<lambda>rq. Inr \<lparr>pr_status = 200, pr_json = Inr (Obj [(''access_token'', Str ''tok_123'')])\<rparr>)
              (Obj []) = Inr r
           \<and> response r = \<lparr>resp_status = 400,
                resp_body = JsonBody (Obj [(''error'', Str ''Authorization code is required'')])\<rparr>
           \<and> fetched r = [])"
proof -
  have h: "js_get (Obj []) ''code'' = Inr Undefined \<or> js_get (Obj []) ''code'' = Inr (Str [])"
    by simp
  show ?thesis
    using h token_missing_code_400 [OF h] by blast
qed

section \<open>Serialisation of parsed values\<close>

lemma json_wire_id: "is_json v \<Longrightarrow> json_wire v = v"
proof (induction v rule: json_wire.induct)
  case (1 xs)
  then have "\<And>x. x \<in> set xs \<Longrightarrow> is_json x \<and> x \<noteq> Undefined"
    by (auto simp: list_all_iff)
  with 1 have "map (\<lambda>v. if v = Undefined then Null else json_wire v) xs = xs"
    by (intro map_idI) auto
  then show ?case by simp
next
  case (2 kvs)
  then have a: "\<And>k v. (k, v) \<in> set kvs \<Longrightarrow> is_json v \<and> v \<noteq> Undefined"
    by (auto simp: list_all_iff)
  then have f: "filter (\<lambda>(k, v). v \<noteq> Undefined) kvs = kvs"
    by (auto simp: filter_id_conv)
  have "map (\<lambda>(k, v). (k, json_wire v)) kvs = kvs"
    using 2 a f by (intro map_idI) auto
  with f show ?case by simp
qed simp_all

lemma is_json_field:
  "list_all (\<lambda>(k, v). is_json v) kvs \<Longrightarrow> map_of kvs k = Some t \<Longrightarrow> is_json t"
  by (auto simp: list_all_iff dest: map_of_SomeD)

section \<open>Provider errors\<close>

text \<open>
  C3, as amended. When the identity provider answers with a status outside 200 to 299
  (the status of a final response, so from 300 to 999), the token endpoint answers
  with that same status. Unless the status is 304, the body carries the provider's
  parsed payload under \<^verbatim>\<open>details\<close>, and the empty object in its place when the
  payload does not parse. At status 304 the answer goes out without a body. In each
  case the request completes with the provider's status.
\<close>

theorem token_provider_error_forwarded:
  assumes "js_get req_body ''code'' = Inr code" and "truthy code"
    and "fetch (token_request cfg code) = Inr r"
    and "\<not> ok (pr_status r)" and "200 \<le> pr_status r" and "pr_status r \<le> 999"
    and "\<forall>v. pr_json r = Inr v \<longrightarrow> is_json v"
  shows "sent (token_handler cfg fetch req_body) =
           Some \<lparr>resp_status = pr_status r,
                 resp_body =
                   (if pr_status r = 304 then NoBody
                    else JsonBody (Obj [(''error'', Str ''Failed to exchange token with Discord''),
                      (''details'', case pr_json r of Inl e \<Rightarrow> Obj [] | Inr v \<Rightarrow> v)]))\<rparr>"
proof -
  from assms(4) have n: "pr_status r \<noteq> 204"
    by (auto simp: ok_def)
  show ?thesis
  proof (cases "pr_json r")
    case (Inl e)
    with assms n show ?thesis
      by (simp add: token_handler_def sent_def res_json_def Let_def)
  next
    case (Inr v)
    with assms have "is_json v" by simp
    then have "json_wire v = v" "v \<noteq> Undefined"
      by (auto simp: json_wire_id)
    with assms n Inr show ?thesis
      by (simp add: token_handler_def sent_def res_json_def Let_def)
  qed
qed

theorem token_provider_error_forwarded_witness:
  "sent (token_handler (example_config True)
      (\<lambda>rq. Inr \<lparr>pr_status = 401, pr_json = Inr (Obj [(''error'', Str ''invalid_client'')])\<rparr>)
      (Obj [(''code'', Str ''abc'')])) =
   Some \<lparr>resp_status = 401,
         resp_body = JsonBody (Obj [(''error'', Str ''Failed to exchange token with Discord''),
           (''details'', Obj [(''error'', Str ''invalid_client'')])])\<rparr>"
proof -
  let ?r = "\<lparr>pr_status = 401, pr_json = Inr (Obj [(''error'', Str ''invalid_client'')])\<rparr>"
  have a: "js_get (Obj [(''code'', Str ''abc'')]) ''code'' = Inr (Str ''abc'')" by simp
  have b: "truthy (Str ''abc'')" by simp
  have c: "(\<lambda>rq. Inr ?r) (token_request (example_config True) (Str ''abc'')) = Inr ?r" by simp
  have d: "\<not> ok (pr_status ?r)" by (simp add: ok_def)
  have lo: "200 \<le> pr_status ?r" by simp
  have hi: "pr_status ?r \<le> 999" by simp
  have e: "\<forall>v. pr_json ?r = Inr v \<longrightarrow> is_json v" by simp
  show ?thesis
    using token_provider_error_forwarded [OF a b c d lo hi e] by simp
qed

text \<open>The same with a payload that does not parse: the empty object is forwarded.\<close>

lemma token_provider_error_unparseable:
  "sent (token_handler (example_config True)
      (\<lambda>rq. Inr \<lparr>pr_status = 400, pr_json = Inl (JsError ''SyntaxError'' ''Unexpected token <'')\<rparr>)
      (Obj [(''code'', Str ''abc'')])) =
   Some \<lparr>resp_status = 400,
         resp_body = JsonBody (Obj [(''error'', Str ''Failed to exchange token with Discord''),
           (''details'', Obj [])])\<rparr>"
  by (simp add: token_handler_def sent_def res_json_def ok_def Let_def)

text \<open>
  C3 as first stated has the payload in the body at every status outside 200 to 299.
  At the provider status 304 the status is forwarded and no body is sent.
\<close>

theorem token_provider_error_304_counterexample:
  "\<not> ok 304
   \<and> sent (token_handler (example_config True)
        (\<lambda>rq. Inr \<lparr>pr_status = 304, pr_json = Inr (Obj [(''error'', Str ''not_modified'')])\<rparr>)
        (Obj [(''code'', Str ''abc'')]))
     = Some \<lparr>resp_status = 304, resp_body = NoBody\<rparr>"
  by (simp add: token_handler_def sent_def res_json_def ok_def Let_def)

section \<open>Transport errors\<close>

text \<open>
  C4, as amended. When the call to the identity provider throws, the token endpoint
  answers with status 500 and the fixed message
  \<^verbatim>\<open>Internal server error during token exchange\<close> in every mode, production or
  not; the error itself goes to the server's console only.
\<close>

theorem token_transport_error_500:
  assumes "js_get req_body ''code'' = Inr code" and "truthy code"
    and "fetch (token_request cfg code) = Inl e"
  shows "\<exists>res. token_handler cfg fetch req_body = Inr res
           \<and> response res = \<lparr>resp_status = 500,
                resp_body = JsonBody (Obj [(''error'', Str ''Internal server error during token exchange'')])\<rparr>
           \<and> logged res = [ConsoleError ''Token exchange error:'' (LogErr e)]"
  using assms by (simp add: token_handler_def token_catch_def res_json_def Let_def)

theorem token_transport_error_500_witness:
  "\<exists>res. token_handler (example_config False) (\<lambda>rq. Inl (JsError ''TypeError'' ''fetch failed''))
            (Obj [(''code'', Str ''abc'')]) = Inr res
         \<and> response res = \<lparr>resp_status = 500,
              resp_body = JsonBody (Obj [(''error'', Str ''Internal server error during token exchange'')])\<rparr>
         \<and> logged res = [ConsoleError ''Token exchange error:'' (LogErr (JsError ''TypeError'' ''fetch failed''))]"
proof -
  have a: "js_get (Obj [(''code'', Str ''abc'')]) ''code'' = Inr (Str ''abc'')" by simp
  have b: "truthy (Str ''abc'')" by simp
  have c: "(\<lambda>rq. Inl (JsError ''TypeError'' ''fetch failed'')) (token_request (example_config False) (Str ''abc''))
             = (Inl (JsError ''TypeError'' ''fetch failed'') :: js_error + provider_response)" by simp
  show ?thesis
    using token_transport_error_500 [OF a b c] by simp
qed

text \<open>
  C4 as first stated asks for the raw error message outside production mode. With
  production mode off and a \<^verbatim>\<open>fetch\<close> that throws \<^verbatim>\<open>fetch failed\<close>, the body
  carries the fixed message, not the raw one.
\<close>

theorem token_transport_error_counterexample:
  "\<not> isProduction (example_config False)
   \<and> sent (token_handler (example_config False) (\<lambda>rq. Inl (JsError ''TypeError'' ''fetch failed''))
        (Obj [(''code'', Str ''abc'')]))
     = Some \<lparr>resp_status = 500,
          resp_body = JsonBody (Obj [(''error'', Str ''Internal server error during token exchange'')])\<rparr>
   \<and> sent (token_handler (example_config False) (\<lambda>rq. Inl (JsError ''TypeError'' ''fetch failed''))
        (Obj [(''code'', Str ''abc'')]))
     \<noteq> Some \<lparr>resp_status = 500, resp_body = JsonBody (Obj [(''error'', Str ''fetch failed'')])\<rparr>"
  by (simp add: token_handler_def token_catch_def res_json_def sent_def example_config_def Let_def)

section \<open>Successful exchange\<close>

text \<open>
  C1, as amended. When the identity provider answers with a 2xx status and its payload
  parses to an object that has an \<^verbatim>\<open>access_token\<close> field, the token endpoint
  answers 200 with a body of exactly one field, \<^verbatim>\<open>access_token\<close>, holding the
  provider's value. And for every 2xx answer, whatever its payload, none of
  \<^verbatim>\<open>refresh_token\<close>, \<^verbatim>\<open>token_type\<close>, \<^verbatim>\<open>expires_in\<close> and \<^verbatim>\<open>scope\<close>
  is a field of the body that leaves the server.
\<close>

theorem token_success_access_token_only:
  assumes "js_get req_body ''code'' = Inr code" and "truthy code"
    and "fetch (token_request cfg code) = Inr r" and "ok (pr_status r)"
  shows "(\<forall>kvs t. pr_json r = Inr (Obj kvs) \<and> is_json (Obj kvs) \<and> map_of kvs ''access_token'' = Some t
            \<longrightarrow> sent (token_handler cfg fetch req_body) =
                  Some \<lparr>resp_status = 200, resp_body = JsonBody (Obj [(''access_token'', t)])\<rparr>)
       \<and> (\<exists>st b. sent (token_handler cfg fetch req_body) = Some \<lparr>resp_status = st, resp_body = JsonBody b\<rparr>
            \<and> ''refresh_token'' \<notin> set (js_keys b) \<and> ''token_type'' \<notin> set (js_keys b)
            \<and> ''expires_in'' \<notin> set (js_keys b) \<and> ''scope'' \<notin> set (js_keys b))"
proof (intro conjI allI impI)
  fix kvs t
  assume h: "pr_json r = Inr (Obj kvs) \<and> is_json (Obj kvs) \<and> map_of kvs ''access_token'' = Some t"
  then have "is_json t"
    using is_json_field [of kvs "''access_token''" t] by simp
  then have "json_wire t = t" "t \<noteq> Undefined"
    by (auto simp: json_wire_id)
  with h assms show "sent (token_handler cfg fetch req_body) =
      Some \<lparr>resp_status = 200, resp_body = JsonBody (Obj [(''access_token'', t)])\<rparr>"
    by (simp add: token_handler_def sent_def res_json_def Let_def)
next
  show "\<exists>st b. sent (token_handler cfg fetch req_body) = Some \<lparr>resp_status = st, resp_body = JsonBody b\<rparr>
            \<and> ''refresh_token'' \<notin> set (js_keys b) \<and> ''token_type'' \<notin> set (js_keys b)
            \<and> ''expires_in'' \<notin> set (js_keys b) \<and> ''scope'' \<notin> set (js_keys b)"
    using assms
    by (auto simp: token_handler_def token_catch_def sent_def res_json_def Let_def
             split: sum.splits)
qed

theorem token_success_access_token_only_witness:
  "sent (token_handler (example_config True)
      (\<lambda>rq. Inr \<lparr>pr_status = 200, pr_json = Inr (Obj [(''access_token'', Str ''tok_123''),
                 (''refresh_token'', Str ''r1''), (''scope'', Str ''identify'')])\<rparr>)
      (Obj [(''code'', Str ''validcode'')])) =
   Some \<lparr>resp_status = 200, resp_body = JsonBody (Obj [(''access_token'', Str ''tok_123'')])\<rparr>"
proof -
  let ?kvs = "[(''access_token'', Str ''tok_123''), (''refresh_token'', Str ''r1''), (''scope'', Str ''identify'')]"
  let ?r = "\<lparr>pr_status = 200, pr_json = Inr (Obj ?kvs)\<rparr>"
  have a: "js_get (Obj [(''code'', Str ''validcode'')]) ''code'' = Inr (Str ''validcode'')" by simp
  have b: "truthy (Str ''validcode'')" by simp
  have c: "(\<lambda>rq. Inr ?r) (token_request (example_config True) (Str ''validcode'')) = Inr ?r" by simp
  have d: "ok (pr_status ?r)" by (simp add: ok_def)
  have e: "pr_json ?r = Inr (Obj ?kvs) \<and> is_json (Obj ?kvs) \<and> map_of ?kvs ''access_token'' = Some (Str ''tok_123'')"
    by simp
  show ?thesis
    using token_success_access_token_only [OF a b c d] e by blast
qed

text \<open>
  C1 as first stated promises the field for every 2xx answer. A provider payload with
  no \<^verbatim>\<open>access_token\<close> gives a body with no field at all.
\<close>

theorem token_success_fields_counterexample:
  "ok 200
   \<and> sent (token_handler (example_config True)
        (\<lambda>rq. Inr \<lparr>pr_status = 200, pr_json = Inr (Obj [(''scope'', Str ''identify'')])\<rparr>)
        (Obj [(''code'', Str ''abc'')]))
     = Some \<lparr>resp_status = 200, resp_body = JsonBody (Obj [])\<rparr>
   \<and> js_keys (Obj []) \<noteq> [''access_token'']"
  by (simp add: token_handler_def res_json_def sent_def ok_def Let_def)

text \<open>
  C10, as amended. The endpoint does not validate a successful payload. For every 2xx
  answer whose payload parses to a value other than \<^verbatim>\<open>null\<close>, it answers 200, and
  when the payload has no \<^verbatim>\<open>access_token\<close> the body is the empty object, with no
  \<^verbatim>\<open>access_token\<close> in it, not an error. For every 2xx answer whose payload does not
  parse, or parses to \<^verbatim>\<open>null\<close>, the \<^verbatim>\<open>catch\<close> block answers 500 with its
  fixed message.
\<close>

theorem token_success_without_validation:
  assumes "js_get req_body ''code'' = Inr code" and "truthy code"
    and "fetch (token_request cfg code) = Inr r" and "ok (pr_status r)"
  shows "(\<forall>v. pr_json r = Inr v \<and> is_json v \<and> v \<noteq> Null \<longrightarrow>
            (\<exists>b. sent (token_handler cfg fetch req_body) =
                    Some \<lparr>resp_status = 200, resp_body = JsonBody b\<rparr>
                \<and> (js_get v ''access_token'' = Inr Undefined \<longrightarrow> b = Obj [])))
       \<and> ((\<exists>e. pr_json r = Inl e) \<or> pr_json r = Inr Null \<longrightarrow>
            sent (token_handler cfg fetch req_body) =
              Some \<lparr>resp_status = 500,
                resp_body = JsonBody (Obj [(''error'', Str ''Internal server error during token exchange'')])\<rparr>)"
proof (intro conjI allI impI)
  fix v
  assume h: "pr_json r = Inr v \<and> is_json v \<and> v \<noteq> Null"
  then obtain t where t: "js_get v ''access_token'' = Inr t"
    by (cases v) auto
  with h assms show "\<exists>b. sent (token_handler cfg fetch req_body) =
                    Some \<lparr>resp_status = 200, resp_body = JsonBody b\<rparr>
                \<and> (js_get v ''access_token'' = Inr Undefined \<longrightarrow> b = Obj [])"
    by (auto simp: token_handler_def sent_def res_json_def Let_def)
next
  assume "(\<exists>e. pr_json r = Inl e) \<or> pr_json r = Inr Null"
  with assms show "sent (token_handler cfg fetch req_body) =
              Some \<lparr>resp_status = 500,
                resp_body = JsonBody (Obj [(''error'', Str ''Internal server error during token exchange'')])\<rparr>"
    by (auto simp: token_handler_def token_catch_def sent_def res_json_def Let_def)
qed

theorem token_success_without_validation_witness:
  "(\<exists>b. sent (token_handler (example_config True)
        (\<lambda>rq. Inr \<lparr>pr_status = 200, pr_json = Inr (Obj [(''scope'', Str ''identify'')])\<rparr>)
        (Obj [(''code'', Str ''abc'')]))
       = Some \<lparr>resp_status = 200, resp_body = JsonBody b\<rparr>
     \<and> b = Obj [])
   \<and> sent (token_handler (example_config True)
        (\<lambda>rq. Inr \<lparr>pr_status = 200, pr_json = Inr Null\<rparr>)
        (Obj [(''code'', Str ''abc'')]))
       = Some \<lparr>resp_status = 500,
           resp_body = JsonBody (Obj [(''error'', Str ''Internal server error during token exchange'')])\<rparr>"
proof -
  let ?v = "Obj [(''scope'', Str ''identify'')]"
  let ?r = "\<lparr>pr_status = 200, pr_json = Inr ?v\<rparr>"
  let ?n = "\<lparr>pr_status = 200, pr_json = Inr Null\<rparr>"
  have a: "js_get (Obj [(''code'', Str ''abc'')]) ''code'' = Inr (Str ''abc'')" by simp
  have b: "truthy (Str ''abc'')" by simp
  have c: "(\<lambda>rq. Inr ?r) (token_request (example_config True) (Str ''abc'')) = Inr ?r" by simp
  have c': "(\<lambda>rq. Inr ?n) (token_request (example_config True) (Str ''abc'')) = Inr ?n" by simp
  have d: "ok (pr_status ?r)" "ok (pr_status ?n)" by (simp_all add: ok_def)
  have e: "pr_json ?r = Inr ?v \<and> is_json ?v \<and> ?v \<noteq> Null" by simp
  have h: "js_get ?v ''access_token'' = Inr Undefined" by simp
  have n: "(\<exists>e. pr_json ?n = Inl e) \<or> pr_json ?n = Inr Null" by simp
  have "\<exists>b. sent (token_handler (example_config True) (\<lambda>rq. Inr ?r) (Obj [(''code'', Str ''abc'')]))
       = Some \<lparr>resp_status = 200, resp_body = JsonBody b\<rparr> \<and> b = Obj []"
    using token_success_without_validation [OF a b c d(1)] e h by blast
  moreover have "sent (token_handler (example_config True) (\<lambda>rq. Inr ?n) (Obj [(''code'', Str ''abc'')]))
       = Some \<lparr>resp_status = 500,
           resp_body = JsonBody (Obj [(''error'', Str ''Internal server error during token exchange'')])\<rparr>"
    using token_success_without_validation [OF a b c' d(2)] n by blast
  ultimately show ?thesis by blast
qed

text \<open>
  C10 as first stated promises status 200 for every 2xx answer. A 2xx answer whose
  payload does not parse makes \<^verbatim>\<open>response.json()\<close> reject inside the
  \<^verbatim>\<open>try\<close>, and the \<^verbatim>\<open>catch\<close> block answers 500.
\<close>

theorem token_success_status_counterexample:
  "ok 204
   \<and> sent (token_handler (example_config True)
        (\<lambda>rq. Inr \<lparr>pr_status = 204, pr_json = Inl (JsError ''SyntaxError'' ''Unexpected end of JSON input'')\<rparr>)
        (Obj [(''code'', Str ''abc'')]))
     = Some \<lparr>resp_status = 500,
          resp_body = JsonBody (Obj [(''error'', Str ''Internal server error during token exchange'')])\<rparr>"
  by (simp add: token_handler_def token_catch_def res_json_def sent_def ok_def Let_def)

section \<open>Client: failure of the token exchange\<close>

text \<open>
  C9. When the \<^verbatim>\<open>POST\<close> to \<^verbatim>\<open>/api/token\<close> comes back with a status outside
  200 to 299, \<^verbatim>\<open>setupDiscordSdk\<close> throws before \<^verbatim>\<open>accessToken\<close> is assigned:
  \<^verbatim>\<open>accessToken\<close> and \<^verbatim>\<open>currentUser\<close> keep the values they had (both
  \<^verbatim>\<open>null\<close> at the start), and \<^verbatim>\<open>authenticate\<close> is never called.
\<close>

theorem setup_aborts_on_token_error:
  assumes "sdk_ready env = Inr u"
    and "sdk_authorize env (the_authorize_args cid) = Inr a"
    and "js_get a ''code'' = Inr code"
    and "fetch_token env (json_wire (Obj [(''code'', code)])) = Inr resp"
    and "\<not> ok (cr_status resp)"
  shows "(\<exists>e. returned (setupDiscordSdk env cid s) = Inl e)
       \<and> accessToken (state (setupDiscordSdk env cid s)) = accessToken s
       \<and> currentUser (state (setupDiscordSdk env cid s)) = currentUser s
       \<and> \<not> list_ex is_authenticate (calls (setupDiscordSdk env cid s))"
proof -
  have "exchange_step env s [CallReady, CallAuthorize (the_authorize_args cid)] code =
          \<lparr>returned = Inl (case cr_text resp of
               Inl e \<Rightarrow> e
             | Inr t \<Rightarrow> JsError ''Error''
                 (''Failed to exchange code for token: '' @ dec_of_nat (cr_status resp))),
           state = s,
           calls = [CallReady, CallAuthorize (the_authorize_args cid),
                    CallFetchToken (json_wire (Obj [(''code'', code)]))]\<rparr>"
    using assms(4,5) by (simp add: exchange_step_def Let_def split: sum.splits)
  with assms(1,2,3) show ?thesis
    by (simp add: setupDiscordSdk_def Let_def)
qed

theorem setup_aborts_on_token_error_witness:
  "(\<exists>e. returned (setupDiscordSdk
        (example_client \<lparr>cr_status = 500, cr_text = Inr ''{}'', cr_json = Inr (Obj [])\<rparr>)
        ''123'' initial_state) = Inl e)
   \<and> accessToken (state (setupDiscordSdk
        (example_client \<lparr>cr_status = 500, cr_text = Inr ''{}'', cr_json = Inr (Obj [])\<rparr>)
        ''123'' initial_state)) = Null
   \<and> currentUser (state (setupDiscordSdk
        (example_client \<lparr>cr_status = 500, cr_text = Inr ''{}'', cr_json = Inr (Obj [])\<rparr>)
        ''123'' initial_state)) = Null
   \<and> \<not> list_ex is_authenticate (calls (setupDiscordSdk
        (example_client \<lparr>cr_status = 500, cr_text = Inr ''{}'', cr_json = Inr (Obj [])\<rparr>)
        ''123'' initial_state))"
proof -
  let ?resp = "\<lparr>cr_status = 500, cr_text = Inr ''{}'', cr_json = Inr (Obj [])\<rparr>"
  let ?env = "example_client ?resp"
  have a: "sdk_ready ?env = Inr ()" by (simp add: example_client_def)
  have b: "sdk_authorize ?env (the_authorize_args ''123'') = Inr (Obj [(''code'', Str ''abc'')])"
    by (simp add: example_client_def)
  have c: "js_get (Obj [(''code'', Str ''abc'')]) ''code'' = Inr (Str ''abc'')" by simp
  have d: "fetch_token ?env (json_wire (Obj [(''code'', Str ''abc'')])) = Inr ?resp"
    by (simp add: example_client_def)
  have e: "\<not> ok (cr_status ?resp)" by (simp add: ok_def)
  show ?thesis
    using setup_aborts_on_token_error [OF a b c d e, of initial_state]
    by (simp add: initial_state_def)
qed

text \<open>For comparison, a successful exchange assigns both variables.\<close>

lemma setup_success_example:
  "state (setupDiscordSdk
      (example_client \<lparr>cr_status = 200, cr_text = Inr [], cr_json = Inr (Obj [(''access_token'', Str ''tok'')])\<rparr>)
      ''123'' initial_state)
   = \<lparr>currentUser = Obj [(''id'', Str ''42'')], accessToken = Str ''tok''\<rparr>"
  by (simp add: setupDiscordSdk_def exchange_step_def authenticate_step_def example_client_def
       initial_state_def ok_def Let_def)

section \<open>Decimal numerals\<close>

lemma of_char_digit_char: "d < 10 \<Longrightarrow> (of_char (digit_char d) :: nat) = 48 + d"
  by (simp add: take_bit_eq_mod)

lemma digit_val_digit_char: "d < 10 \<Longrightarrow> digit_val (digit_char d) = Some d"
  using of_char_digit_char [of d] by (simp add: digit_val_def Let_def del: digit_char.simps)

lemma digit_char_plain:
  assumes "d < 10"
  shows "\<not> is_space (digit_char d)" and "digit_char d \<noteq> CHR ''-''" and "digit_char d \<noteq> CHR ''+''"
    and "digit_char d \<noteq> CHR ''x''" and "digit_char d \<noteq> CHR ''X''"
    and "digit_char d \<noteq> CHR ''o''" and "digit_char d \<noteq> CHR ''O''"
    and "digit_char d \<noteq> CHR ''b''" and "digit_char d \<noteq> CHR ''B''"
    and "digit_char d \<noteq> CHR ''?''"
  using assms of_char_digit_char [OF assms]
  by (auto simp: is_space_def simp del: digit_char.simps)

lemma parse_digits_snoc:
  "parse_digits b (xs @ [c]) acc =
     (case parse_digits b xs acc of
        None \<Rightarrow> None
      | Some m \<Rightarrow> (case digit_val c of
           None \<Rightarrow> None
         | Some d \<Rightarrow> if d < b then Some (m * b + d) else None))"
  by (induction xs arbitrary: acc) (auto split: option.splits)

lemma parse_digits_dec_of_nat: "parse_digits 10 (dec_of_nat n) 0 = Some n"
proof (induction n rule: dec_of_nat.induct)
  case (1 n)
  show ?case
  proof (cases "n < 10")
    case True
    then show ?thesis
      by (subst dec_of_nat.simps) (simp add: digit_val_digit_char del: digit_char.simps)
  next
    case False
    with 1 have "parse_digits 10 (dec_of_nat (n div 10)) 0 = Some (n div 10)" by simp
    with False show ?thesis
      by (subst dec_of_nat.simps)
         (simp add: parse_digits_snoc digit_val_digit_char del: digit_char.simps)
  qed
qed

lemma dec_of_nat_digits: "set (dec_of_nat n) \<subseteq> digit_char ` {..<10}"
proof (induction n rule: dec_of_nat.induct)
  case (1 n)
  show ?case
  proof (cases "n < 10")
    case True
    then show ?thesis
      by (subst dec_of_nat.simps) (simp del: digit_char.simps)
  next
    case False
    with 1 have "set (dec_of_nat (n div 10)) \<subseteq> digit_char ` {..<10}" by simp
    moreover have "digit_char (n mod 10) \<in> digit_char ` {..<10}" by (intro imageI) simp
    ultimately show ?thesis using False
      by (subst dec_of_nat.simps) (simp del: digit_char.simps)
  qed
qed

lemma dec_of_nat_nonempty: "dec_of_nat n \<noteq> []"
  by (subst dec_of_nat.simps) simp

lemma trim_plain:
  assumes "s \<noteq> []" and "\<not> is_space (hd s)" and "\<not> is_space (last s)"
  shows "trim s = s"
proof -
  from assms have "dropWhile is_space s = s"
    by (cases s) auto
  moreover from assms have "dropWhile is_space (rev s) = rev s"
    by (cases "rev s") (auto simp: last_rev [symmetric] simp del: last_rev)
  ultimately show ?thesis by (simp add: trim_def)
qed

lemma trim_dec_of_nat: "trim (dec_of_nat n) = dec_of_nat n"
proof -
  have ne: "dec_of_nat n \<noteq> []" by (rule dec_of_nat_nonempty)
  then have "hd (dec_of_nat n) \<in> set (dec_of_nat n)" "last (dec_of_nat n) \<in> set (dec_of_nat n)"
    by simp_all
  with dec_of_nat_digits [of n]
  have "\<not> is_space (hd (dec_of_nat n))" "\<not> is_space (last (dec_of_nat n))"
    by (auto simp: digit_char_plain simp del: digit_char.simps)
  with ne show ?thesis by (rule trim_plain)
qed

lemma string_to_bigint_dec_of_nat: "string_to_bigint (dec_of_nat n) = Some (int n)"
proof (cases "dec_of_nat n")
  case Nil
  then show ?thesis using dec_of_nat_nonempty by simp
next
  case (Cons c cs)
  note c = this
  have p: "parse_numeral 10 (dec_of_nat n) = Some n"
    by (simp add: parse_numeral_def dec_of_nat_nonempty parse_digits_dec_of_nat)
  show ?thesis
  proof (cases cs)
    case Nil
    with c have "trim [c] = [c]" using trim_dec_of_nat [of n] by simp
    with Nil c p show ?thesis
      by (simp add: string_to_bigint_def)
  next
    case (Cons d ds)
    with c have "c \<in> set (dec_of_nat n)" "d \<in> set (dec_of_nat n)" by simp_all
    with dec_of_nat_digits [of n]
    have "c \<in> digit_char ` {..<10}" "d \<in> digit_char ` {..<10}" by auto
    then have "c \<noteq> CHR ''-''" "c \<noteq> CHR ''+''"
      "d \<noteq> CHR ''x''" "d \<noteq> CHR ''X''" "d \<noteq> CHR ''o''" "d \<noteq> CHR ''O''"
      "d \<noteq> CHR ''b''" "d \<noteq> CHR ''B''"
      by (auto simp: digit_char_plain simp del: digit_char.simps)
    moreover from c Cons have "trim (c # d # ds) = c # d # ds"
      using trim_dec_of_nat [of n] by simp
    ultimately show ?thesis using c Cons p
      by (simp add: string_to_bigint_def)
  qed
qed

lemma BigInt_dec_of_nat: "BigInt (dec_of_nat n) = Inr (int n)"
  by (simp add: BigInt_def string_to_bigint_dec_of_nat)

lemma bigint_rem_nat: "bigint_rem (int n) 5 = int (n mod 5)"
  by (cases "n = 0") (simp_all add: bigint_rem_def zmod_int)

lemma dec_of_int_nat: "dec_of_int (int n) = dec_of_nat n"
  by (simp add: dec_of_int_def)

lemma digit_char_table:
  "map digit_char [0, 1, 2, 3, 4, 5, 6, 7, 8, 9] = ''0123456789''"
  by (simp add: char_of_def bit_Suc_0_iff)

lemma default_avatar_url:
  "\<not> present h \<Longrightarrow>
   getUserAvatarUrl (dec_of_nat n) h size_arg =
     Inr (''https://cdn.discordapp.com/embed/avatars/'' @ dec_of_nat (n mod 5) @ ''.png'')"
  by (simp add: getUserAvatarUrl_def BigInt_dec_of_nat bigint_rem_nat dec_of_int_nat Let_def)

section \<open>Default avatars\<close>

text \<open>
  C5. For every user ID, written as the decimal numeral of a natural number of any
  size, the default-avatar index that \<^verbatim>\<open>getUserAvatarUrl\<close> computes when the avatar
  hash is \<^verbatim>\<open>null\<close> is the exact remainder of the ID modulo 5: the arithmetic is
  that of unbounded integers, so IDs above \<open>2 ^ 53\<close> lose nothing.
\<close>

theorem default_avatar_index_mod_5:
  "getUserAvatarUrl (dec_of_nat n) None size_arg =
     Inr (''https://cdn.discordapp.com/embed/avatars/'' @ dec_of_nat (n mod 5) @ ''.png'')"
  by (simp add: default_avatar_url)

text \<open>An ID above \<open>2 ^ 53\<close>: rounding it to a double first would give index 2.\<close>

lemma default_avatar_above_2_53:
  "(2::nat) ^ 53 < 9007199254740993
   \<and> getUserAvatarUrl ''9007199254740993'' None None =
       Inr ''https://cdn.discordapp.com/embed/avatars/3.png''"
proof -
  have "dec_of_nat 9007199254740993 = ''9007199254740993''"
    using digit_char_table by (simp add: dec_of_nat.simps del: digit_char.simps)
  moreover have "dec_of_nat (9007199254740993 mod 5) = ''3''"
    using digit_char_table by (simp add: dec_of_nat.simps del: digit_char.simps)
  ultimately show ?thesis
    using default_avatar_url [of None 9007199254740993 None] by simp
qed

section \<open>The size parameter of avatar URLs\<close>

lemma dec_of_nat_no_query: "CHR ''?'' \<notin> set (dec_of_nat n)"
proof
  assume "CHR ''?'' \<in> set (dec_of_nat n)"
  with dec_of_nat_digits [of n] obtain d where "d < 10" and "digit_char d = CHR ''?''"
    by (auto simp del: digit_char.simps)
  with digit_char_plain(10) [of d] show False by simp
qed

lemma dec_of_int_no_query: "CHR ''?'' \<notin> set (dec_of_int k)"
  by (simp add: dec_of_int_def dec_of_nat_no_query)

lemma default_avatar_no_query:
  assumes "getUserAvatarUrl userId None size_arg = Inr url"
  shows "CHR ''?'' \<notin> set url"
proof (cases "BigInt userId")
  case (Inl e)
  with assms show ?thesis by (simp add: getUserAvatarUrl_def Let_def)
next
  case (Inr b)
  with assms have "url = ''https://cdn.discordapp.com/embed/avatars/'' @ dec_of_int (bigint_rem b 5) @ ''.png''"
    by (simp add: getUserAvatarUrl_def Let_def)
  then show ?thesis
    using dec_of_int_no_query [of "bigint_rem b 5"] by simp
qed

text \<open>
  C6, as amended. For every user ID that is a decimal numeral, and every size
  argument, \<^verbatim>\<open>getUserAvatarUrl(id, null)\<close> is the URL
  \<^verbatim>\<open>.../embed/avatars/{index}.png\<close>; for every user ID string, the URL it returns
  (it throws instead when \<^verbatim>\<open>BigInt\<close> rejects the ID) has no query part, hence no
  size parameter. For every user ID string and every hash that is neither
  \<^verbatim>\<open>null\<close> nor the empty string, \<^verbatim>\<open>getUserAvatarUrl(id, hash)\<close> is the URL
  \<^verbatim>\<open>.../avatars/{id}/{hash}.webp\<close> followed by \<^verbatim>\<open>?size=\<close> and the size as
  JavaScript writes that number, which is \<^verbatim>\<open>128\<close> when the caller passes none.
\<close>

theorem avatar_url_size_parameter:
  assumes "case size_arg of None \<Rightarrow> True | Some k \<Rightarrow> is_number k"
  shows "getUserAvatarUrl (dec_of_nat n) None size_arg =
     Inr (''https://cdn.discordapp.com/embed/avatars/'' @ dec_of_nat (n mod 5) @ ''.png'')
   \<and> (\<forall>u url. getUserAvatarUrl u None size_arg = Inr url \<longrightarrow> CHR ''?'' \<notin> set url)
   \<and> (h \<noteq> [] \<longrightarrow>
        getUserAvatarUrl userId (Some h) size_arg =
          Inr (''https://cdn.discordapp.com/avatars/'' @ userId @ ''/'' @ h @ ''.webp''
               @ ''?size='' @ number_to_string (case size_arg of None \<Rightarrow> SafeInteger 128 | Some k \<Rightarrow> k))
      \<and> getUserAvatarUrl userId (Some h) None =
          Inr (''https://cdn.discordapp.com/avatars/'' @ userId @ ''/'' @ h @ ''.webp'' @ ''?size=128''))"
proof -
  have a: "getUserAvatarUrl (dec_of_nat n) None size_arg =
     Inr (''https://cdn.discordapp.com/embed/avatars/'' @ dec_of_nat (n mod 5) @ ''.png'')"
    by (simp add: default_avatar_url)
  have "dec_of_int 128 = ''128''"
    using digit_char_table by (simp add: dec_of_int_def dec_of_nat.simps del: digit_char.simps)
  then have b: "h \<noteq> [] \<longrightarrow>
        getUserAvatarUrl userId (Some h) size_arg =
          Inr (''https://cdn.discordapp.com/avatars/'' @ userId @ ''/'' @ h @ ''.webp''
               @ ''?size='' @ number_to_string (case size_arg of None \<Rightarrow> SafeInteger 128 | Some k \<Rightarrow> k))
      \<and> getUserAvatarUrl userId (Some h) None =
          Inr (''https://cdn.discordapp.com/avatars/'' @ userId @ ''/'' @ h @ ''.webp'' @ ''?size=128'')"
    by (simp add: getUserAvatarUrl_def Let_def)
  from a default_avatar_no_query b show ?thesis
    by blast
qed

theorem avatar_url_size_parameter_witness:
  "getUserAvatarUrl ''123'' None None = Inr ''https://cdn.discordapp.com/embed/avatars/3.png''
   \<and> CHR ''?'' \<notin> set ''https://cdn.discordapp.com/embed/avatars/3.png''
   \<and> getUserAvatarUrl ''123'' (Some ''abc123'') None =
     Inr ''https://cdn.discordapp.com/avatars/123/abc123.webp?size=128''
   \<and> getUserAvatarUrl ''123'' (Some ''abc123'') (Some (SafeInteger 64)) =
     Inr ''https://cdn.discordapp.com/avatars/123/abc123.webp?size=64''
   \<and> getUserAvatarUrl ''123'' (Some ''abc123'') (Some (OtherNumber ''1e+21'')) =
     Inr ''https://cdn.discordapp.com/avatars/123/abc123.webp?size=1e+21''"
proof -
  have "dec_of_int 64 = ''64''"
    using digit_char_table by (simp add: dec_of_int_def dec_of_nat.simps del: digit_char.simps)
  moreover have "dec_of_nat 123 = ''123''" "dec_of_nat (123 mod 5) = ''3''"
    using digit_char_table by (simp_all add: dec_of_nat.simps del: digit_char.simps)
  moreover have "case (None :: js_number option) of None \<Rightarrow> True | Some k \<Rightarrow> is_number k"
    and "case Some (SafeInteger 64) of None \<Rightarrow> True | Some k \<Rightarrow> is_number k"
    and "case Some (OtherNumber ''1e+21'') of None \<Rightarrow> True | Some k \<Rightarrow> is_number k"
    by simp_all
  ultimately show ?thesis
    using avatar_url_size_parameter [where size_arg = None and n = 123 and h = "''abc123''"
        and userId = "''123''"]
      avatar_url_size_parameter [where size_arg = "Some (SafeInteger 64)" and h = "''abc123''"
        and userId = "''123''"]
      avatar_url_size_parameter [where size_arg = "Some (OtherNumber ''1e+21'')" and h = "''abc123''"
        and userId = "''123''"]
    by simp
qed

text \<open>
  C6 as first stated covers every hash that is not \<^verbatim>\<open>null\<close>. The empty string
  is such a hash, and the test \<^verbatim>\<open>!avatarHash\<close> sends it down the default-avatar
  branch: the URL has no size parameter.
\<close>

theorem avatar_url_empty_hash_counterexample:
  "getUserAvatarUrl ''123'' (Some []) None = Inr ''https://cdn.discordapp.com/embed/avatars/3.png''
   \<and> CHR ''?'' \<notin> set ''https://cdn.discordapp.com/embed/avatars/3.png''"
proof -
  have "dec_of_nat 123 = ''123''"
    using digit_char_table by (simp add: dec_of_nat.simps del: digit_char.simps)
  moreover have "dec_of_nat (123 mod 5) = ''3''"
    using digit_char_table by (simp add: dec_of_nat.simps del: digit_char.simps)
  ultimately show ?thesis
    using default_avatar_url [of "Some []" 123 None] by simp
qed

section \<open>Unmatched routes\<close>

text \<open>
  C7, as amended. A request that none of the API routes takes, and that the body
  parser, the CORS middleware and (in production) the static file middleware pass on,
  is answered with status 404 when production mode is off, and in production mode
  when its method is neither GET nor HEAD. The body is \<^verbatim>\<open>{ error: "Not found" }\<close>,
  except that a HEAD request is answered without a body.
\<close>

theorem unmatched_route_404:
  assumes "json_parser env rq = Inr req_body"
    and "cors_mw env (cors_origin cfg) rq = Next"
    and "no_route env rq"
    and "isProduction cfg \<longrightarrow>
           static_mw env (client_dist env) rq = Next \<and> \<not> handles ''GET'' (req_method rq)"
  shows "sv_response (serve env cfg rq) =
           Some \<lparr>resp_status = 404,
                 resp_body = (if req_method rq = ''HEAD'' then NoBody
                              else JsonBody (Obj [(''error'', Str ''Not found'')]))\<rparr>"
proof -
  have "not_found env rq =
          \<lparr>resp_status = 404,
           resp_body = (if req_method rq = ''HEAD'' then NoBody
                        else JsonBody (Obj [(''error'', Str ''Not found'')]))\<rparr>"
    by (simp add: not_found_def res_send_def res_json_def ok_def Let_def)
  with assms show ?thesis
    by (simp add: serve_def no_route_def production_block_def respond_def Let_def)
qed

theorem unmatched_route_404_witness:
  "sv_response (serve (example_env (Obj []) (Inl (JsError ''TypeError'' ''fetch failed'')))
      (example_config False) \<lparr>req_method = ''GET'', req_path = ''/nope'', req_raw = []\<rparr>) =
     Some \<lparr>resp_status = 404, resp_body = JsonBody (Obj [(''error'', Str ''Not found'')])\<rparr>
   \<and> sv_response (serve (example_env (Obj []) (Inl (JsError ''TypeError'' ''fetch failed'')))
      (example_config False) \<lparr>req_method = ''HEAD'', req_path = ''/nope'', req_raw = []\<rparr>) =
     Some \<lparr>resp_status = 404, resp_body = NoBody\<rparr>
   \<and> sv_response (serve (example_env (Obj []) (Inl (JsError ''TypeError'' ''fetch failed'')))
      (example_config True) \<lparr>req_method = ''DELETE'', req_path = ''/nope'', req_raw = []\<rparr>) =
     Some \<lparr>resp_status = 404, resp_body = JsonBody (Obj [(''error'', Str ''Not found'')])\<rparr>"
proof -
  let ?env = "example_env (Obj []) (Inl (JsError ''TypeError'' ''fetch failed''))"
  let ?g = "\<lparr>req_method = ''GET'', req_path = ''/nope'', req_raw = []\<rparr>"
  let ?h = "\<lparr>req_method = ''HEAD'', req_path = ''/nope'', req_raw = []\<rparr>"
  let ?d = "\<lparr>req_method = ''DELETE'', req_path = ''/nope'', req_raw = []\<rparr>"
  have a: "json_parser ?env ?g = Inr (Obj [])" "json_parser ?env ?h = Inr (Obj [])"
    "json_parser ?env ?d = Inr (Obj [])"
    by (simp_all add: example_env_def)
  have b: "cors_mw ?env (cors_origin (example_config False)) ?g = Next"
    "cors_mw ?env (cors_origin (example_config False)) ?h = Next"
    "cors_mw ?env (cors_origin (example_config True)) ?d = Next"
    by (simp_all add: example_env_def)
  have c: "no_route ?env ?g" "no_route ?env ?h" "no_route ?env ?d"
    by (simp_all add: no_route_def is_health_def is_token_def is_config_def example_env_def)
  have d: "isProduction (example_config False) \<longrightarrow>
      static_mw ?env (client_dist ?env) ?g = Next \<and> \<not> handles ''GET'' (req_method ?g)"
    "isProduction (example_config False) \<longrightarrow>
      static_mw ?env (client_dist ?env) ?h = Next \<and> \<not> handles ''GET'' (req_method ?h)"
    by (simp_all add: example_config_def)
  have e: "isProduction (example_config True) \<longrightarrow>
      static_mw ?env (client_dist ?env) ?d = Next \<and> \<not> handles ''GET'' (req_method ?d)"
    by (simp add: example_env_def handles_def)
  show ?thesis
    using unmatched_route_404 [OF a(1) b(1) c(1) d(1)] unmatched_route_404 [OF a(2) b(2) c(2) d(2)]
      unmatched_route_404 [OF a(3) b(3) c(3) e]
    by simp
qed

text \<open>
  C7 as first stated includes unmatched GET requests in production mode. There the
  \<^verbatim>\<open>app.get('*')\<close> fallback is registered before the 404 handler and answers
  with \<^verbatim>\<open>index.html\<close>.
\<close>

theorem unmatched_get_production_counterexample:
  "isProduction (example_config True)
   \<and> no_route (example_env (Obj []) (Inl (JsError ''TypeError'' ''fetch failed'')))
        \<lparr>req_method = ''GET'', req_path = ''/nope'', req_raw = []\<rparr>
   \<and> sv_response (serve (example_env (Obj []) (Inl (JsError ''TypeError'' ''fetch failed'')))
        (example_config True) \<lparr>req_method = ''GET'', req_path = ''/nope'', req_raw = []\<rparr>) =
      Some \<lparr>resp_status = 200, resp_body = FileBody ''/srv/client/dist/index.html''\<rparr>"
  by (simp add: serve_def no_route_def is_health_def is_token_def is_config_def
        production_block_def respond_def example_env_def example_config_def cors_origin_def
        request_log_def handles_def Let_def)

section \<open>The client secret\<close>

text \<open>The token handler's response and log lines are the same under any two secrets
  to which the provider gives the same answer.\<close>

lemma token_handler_secret:
  assumes "\<forall>code. fetch (token_request (cfg\<lparr>clientSecret := s1\<rparr>) code) =
                  fetch (token_request (cfg\<lparr>clientSecret := s2\<rparr>) code)"
  shows "map_sum id (\<lambda>h. (response h, logged h)) (token_handler (cfg\<lparr>clientSecret := s1\<rparr>) fetch b) =
         map_sum id (\<lambda>h. (response h, logged h)) (token_handler (cfg\<lparr>clientSecret := s2\<rparr>) fetch b)"
proof (cases "js_get b ''code''")
  case (Inl e)
  then show ?thesis by (simp add: token_handler_def)
next
  case (Inr code)
  from assms have f: "fetch (token_request (cfg\<lparr>clientSecret := s1\<rparr>) code) =
                  fetch (token_request (cfg\<lparr>clientSecret := s2\<rparr>) code)" by blast
  show ?thesis
  proof (cases "truthy code")
    case False
    with Inr show ?thesis by (simp add: token_handler_def)
  next
    case True
    show ?thesis
    proof (cases "fetch (token_request (cfg\<lparr>clientSecret := s2\<rparr>) code)")
      case (Inl e)
      with f Inr True show ?thesis
        by (simp add: token_handler_def token_catch_def Let_def)
    next
      case r: (Inr r)
      with f Inr True show ?thesis
        by (simp add: token_handler_def token_catch_def Let_def split: sum.splits)
    qed
  qed
qed

lemma token_handler_fetched:
  assumes "token_handler cfg fetch b = Inr h" and "f \<in> set (fetched h)"
  shows "\<exists>code. f = token_request cfg code"
  using assms
  by (auto simp: token_handler_def token_catch_def Let_def split: sum.splits if_splits)

lemma serve_fetched:
  assumes "f \<in> set (sv_fetched (serve env cfg rq))"
  shows "\<exists>code. f = token_request cfg code"
  using assms token_handler_fetched [of cfg "do_fetch env"]
  by (auto simp: serve_def respond_def error_handler_def production_block_def Let_def
           split: sum.splits mw_result.splits if_splits)

lemma secret_free_handlers:
  "cors_origin (cfg\<lparr>clientSecret := s\<rparr>) = cors_origin cfg"
  "request_log env (cfg\<lparr>clientSecret := s\<rparr>) rq = request_log env cfg rq"
  "health_handler env (cfg\<lparr>clientSecret := s\<rparr>) rq = health_handler env cfg rq"
  "config_handler env (cfg\<lparr>clientSecret := s\<rparr>) rq = config_handler env cfg rq"
  "error_handler env (cfg\<lparr>clientSecret := s\<rparr>) rq e lg = error_handler env cfg rq e lg"
  by (simp_all add: cors_origin_def request_log_def health_handler_def config_handler_def
        error_handler_def)

lemma secret_free_production:
  "production_block env (cfg\<lparr>clientSecret := s\<rparr>) rq lg = production_block env cfg rq lg"
  by (simp add: production_block_def secret_free_handlers split: mw_result.splits sum.splits)

lemmas secret_free_parts = secret_free_handlers secret_free_production

text \<open>
  C8, as amended. The server itself never puts the client secret into a response: for
  every request, whichever endpoint or handler answers it (the token, health and
  config routes, the static fallback, the 404 handler, the global error handler), and
  for any two secrets to which the identity provider gives the same answers, the
  response, and the log, are the same under both. The secret goes out only in the form
  the server posts to the identity provider's token endpoint, as the field
  \<^verbatim>\<open>client_secret\<close>. What the provider sends back is forwarded as it is.
\<close>

theorem secret_stays_on_server:
  assumes "\<forall>code. do_fetch env (token_request (cfg\<lparr>clientSecret := Some s1\<rparr>) code) =
                  do_fetch env (token_request (cfg\<lparr>clientSecret := Some s2\<rparr>) code)"
  shows "sv_response (serve env (cfg\<lparr>clientSecret := Some s1\<rparr>) rq) =
           sv_response (serve env (cfg\<lparr>clientSecret := Some s2\<rparr>) rq)
       \<and> sv_logged (serve env (cfg\<lparr>clientSecret := Some s1\<rparr>) rq) =
           sv_logged (serve env (cfg\<lparr>clientSecret := Some s2\<rparr>) rq)
       \<and> (\<forall>f \<in> set (sv_fetched (serve env (cfg\<lparr>clientSecret := Some s1\<rparr>) rq)).
             fr_url f = ''https://discord.com/api/oauth2/token''
           \<and> map_of (fr_form f) ''client_secret'' = Some s1)"
proof -
  let ?c1 = "cfg\<lparr>clientSecret := Some s1\<rparr>" and ?c2 = "cfg\<lparr>clientSecret := Some s2\<rparr>"
  have t: "\<And>b. map_sum id (\<lambda>h. (response h, logged h)) (token_handler ?c1 (do_fetch env) b) =
         map_sum id (\<lambda>h. (response h, logged h)) (token_handler ?c2 (do_fetch env) b)"
    using assms by (rule token_handler_secret)
  have same: "sv_response (serve env ?c1 rq) = sv_response (serve env ?c2 rq)
       \<and> sv_logged (serve env ?c1 rq) = sv_logged (serve env ?c2 rq)"
  proof (cases "json_parser env rq")
    case (Inl e)
    then show ?thesis by (simp add: serve_def secret_free_parts)
  next
    case (Inr b)
    show ?thesis
    proof (cases "token_handler ?c1 (do_fetch env) b")
      case l1: (Inl e1)
      with t [of b] obtain e2 where "token_handler ?c2 (do_fetch env) b = Inl e2"
        by (cases "token_handler ?c2 (do_fetch env) b") auto
      with l1 Inr show ?thesis
        by (simp add: serve_def secret_free_parts Let_def split: mw_result.splits)
    next
      case r1: (Inr h1)
      with t [of b] obtain h2 where "token_handler ?c2 (do_fetch env) b = Inr h2"
        and "response h1 = response h2" and "logged h1 = logged h2"
        by (cases "token_handler ?c2 (do_fetch env) b") auto
      with r1 Inr show ?thesis
        by (simp add: serve_def secret_free_parts Let_def split: mw_result.splits)
    qed
  qed
  have out: "\<forall>f \<in> set (sv_fetched (serve env ?c1 rq)).
             fr_url f = ''https://discord.com/api/oauth2/token''
           \<and> map_of (fr_form f) ''client_secret'' = Some s1"
  proof
    fix f assume "f \<in> set (sv_fetched (serve env ?c1 rq))"
    then obtain code where "f = token_request ?c1 code"
      using serve_fetched by blast
    then show "fr_url f = ''https://discord.com/api/oauth2/token''
           \<and> map_of (fr_form f) ''client_secret'' = Some s1"
      by (simp add: token_request_def)
  qed
  from same out show ?thesis by blast
qed

theorem secret_stays_on_server_witness:
  "sv_response (serve (example_env (Obj [(''code'', Str ''abc'')])
         (Inr \<lparr>pr_status = 200, pr_json = Inr (Obj [(''access_token'', Str ''tok_123'')])\<rparr>))
       ((example_config True)\<lparr>clientSecret := Some ''s3cret''\<rparr>)
       \<lparr>req_method = ''POST'', req_path = ''/api/token'', req_raw = []\<rparr>) =
   sv_response (serve (example_env (Obj [(''code'', Str ''abc'')])
         (Inr \<lparr>pr_status = 200, pr_json = Inr (Obj [(''access_token'', Str ''tok_123'')])\<rparr>))
       ((example_config True)\<lparr>clientSecret := Some ''another''\<rparr>)
       \<lparr>req_method = ''POST'', req_path = ''/api/token'', req_raw = []\<rparr>)
   \<and> map (\<lambda>f. (fr_url f, map_of (fr_form f) ''client_secret''))
        (sv_fetched (serve (example_env (Obj [(''code'', Str ''abc'')])
           (Inr \<lparr>pr_status = 200, pr_json = Inr (Obj [(''access_token'', Str ''tok_123'')])\<rparr>))
         ((example_config True)\<lparr>clientSecret := Some ''s3cret''\<rparr>)
         \<lparr>req_method = ''POST'', req_path = ''/api/token'', req_raw = []\<rparr>))
       = [(''https://discord.com/api/oauth2/token'', Some ''s3cret'')]"
proof -
  let ?env = "example_env (Obj [(''code'', Str ''abc'')])
         (Inr \<lparr>pr_status = 200, pr_json = Inr (Obj [(''access_token'', Str ''tok_123'')])\<rparr>)"
  let ?rq = "\<lparr>req_method = ''POST'', req_path = ''/api/token'', req_raw = []\<rparr>"
  let ?cfg = "(example_config True)\<lparr>clientSecret := Some ''s3cret''\<rparr>"
  have a: "\<forall>code. do_fetch ?env (token_request ?cfg code) =
                  do_fetch ?env (token_request ((example_config True)\<lparr>clientSecret := Some ''another''\<rparr>) code)"
    by (simp add: example_env_def)
  have "\<exists>f. sv_fetched (serve ?env ?cfg ?rq) = [f]"
    by (simp add: serve_def example_env_def example_config_def cors_origin_def request_log_def
          is_health_def is_token_def handles_def token_handler_def ok_def Let_def)
  then obtain f where f: "sv_fetched (serve ?env ?cfg ?rq) = [f]" by blast
  have s: "sv_response (serve ?env ?cfg ?rq) =
        sv_response (serve ?env ((example_config True)\<lparr>clientSecret := Some ''another''\<rparr>) ?rq)"
    and o: "\<forall>f \<in> set (sv_fetched (serve ?env ?cfg ?rq)).
             fr_url f = ''https://discord.com/api/oauth2/token''
           \<and> map_of (fr_form f) ''client_secret'' = Some ''s3cret''"
    using secret_stays_on_server [OF a, of ?rq] by blast+
  from o f have "map (\<lambda>f. (fr_url f, map_of (fr_form f) ''client_secret''))
        (sv_fetched (serve ?env ?cfg ?rq)) = [(''https://discord.com/api/oauth2/token'', Some ''s3cret'')]"
    by simp
  with s show ?thesis by blast
qed

text \<open>
  C8 as first stated has no condition on the provider. The handler forwards the
  provider's error payload under \<^verbatim>\<open>details\<close>; with a provider that repeats the
  \<^verbatim>\<open>client_secret\<close> it was sent, the secret is in the body delivered to the client.
\<close>

theorem secret_echo_counterexample:
  "clientSecret (example_config True) = Some ''s3cret''
   \<and> sv_response (serve
        ((example_env (Obj [(''code'', Str ''abc'')]) (Inl (JsError ''TypeError'' ''fetch failed'')))
           \<lparr>do_fetch := echo_provider\<rparr>)
        (example_config True)
        \<lparr>req_method = ''POST'', req_path = ''/api/token'', req_raw = []\<rparr>) =
      Some \<lparr>resp_status = 400,
            resp_body = JsonBody (Obj [(''error'', Str ''Failed to exchange token with Discord''),
              (''details'', Obj [(''error'', Str ''invalid_grant''),
                                 (''client_secret'', Str ''s3cret'')])])\<rparr>"
  by (simp add: serve_def example_env_def example_config_def cors_origin_def request_log_def
        is_health_def is_token_def handles_def token_handler_def token_request_def
        echo_provider_def res_json_def ok_def Let_def)


end
